theory Spec2Isabelle
  imports Complex_Main
begin

section \<open>Quote feed session client (quotecast/utilities.py)\<close>

text \<open>
  A shallow embedding of \<^verbatim>\<open>src/quotecast/utilities.py\<close>: the three operations
  \<^verbatim>\<open>get_session_id\<close>, \<^verbatim>\<open>fetch_data\<close> and \<^verbatim>\<open>subscribe\<close>, with the
  collaborators they call (the HTTP transport, the logger, the clocks) made explicit.

  \<^item> A Python exception is a value of \<open>exn\<close>; an operation returns \<open>exn + 'a\<close>, where
    \<open>Inl\<close> is an exception that leaves the function and \<open>Inr\<close> is a returned value.
  \<^item> Effects go through a \<open>world\<close> that is passed in and returned: the logging calls
    made, the requests handed to \<^verbatim>\<open>session.send\<close>, and the number of system clock reads.
  \<^item> What the module imports but does not define is a field of \<open>env\<close>: the endpoint
    constants, the header set, the behaviour of the transport, the system clock and the
    time zone conversion.

  Library calls other than \<^verbatim>\<open>session.send\<close> and \<^verbatim>\<open>response.json()\<close> are taken to
  return: building a session or a logger, preparing a request, a logging call, reading
  \<^verbatim>\<open>response.cookies._now\<close>, \<^verbatim>\<open>time.localtime\<close>, \<^verbatim>\<open>time.strftime\<close> and the
  construction of the protocol messages. Only exceptions derived from \<^verbatim>\<open>Exception\<close>
  are modelled, these being the ones an \<^verbatim>\<open>except Exception\<close> clause catches.
\<close>

subsection \<open>Python values and exceptions\<close>

text \<open>
  The values \<^verbatim>\<open>response.json()\<close> can produce, and the values \<^verbatim>\<open>get_session_id\<close>
  can return (\<^verbatim>\<open>False\<close>, \<^verbatim>\<open>None\<close>, or whatever is stored under the key). A Python
  \<^verbatim>\<open>float\<close> is approximated by a real number; no statement below depends on
  floating-point rounding. A \<^verbatim>\<open>dict\<close> is an association list read with \<open>map_of\<close>.
\<close>

datatype pyval =
    PyNone
  | PyBool bool
  | PyInt int
  | PyFloat real
  | PyStr string
  | PyList "pyval list"
  | PyDict "(string \<times> pyval) list"

text \<open>
  Exceptions derived from \<^verbatim>\<open>Exception\<close>. \<open>ConnectionError\<close> stands for whatever the
  transport raises while sending, \<open>JSONDecodeError\<close> for what \<^verbatim>\<open>response.json()\<close> raises
  on a body that is not JSON.
\<close>

datatype exn =
    ConnectionError string
  | JSONDecodeError string
  | BrokenPipeError string
  | AttributeError string
  | TypeError string
  | KeyError string

subsection \<open>Protocol messages (quotecast_pb2)\<close>

text \<open>
  Modelled from the spec: the message types of \<^verbatim>\<open>quotecast.pb.quotecast_pb2\<close>, which
  is imported but is not among the sources. The spec gives Action as the enumeration
  {SUBSCRIBE, UNSUBSCRIBE} and says that any other value is a caller error; a protocol
  buffer enumeration field holds an integer, so \<open>UNRECOGNIZED n\<close> stands for a value
  that is neither of the two. A Subscription Request holds an action, a product identifier
  and an ordered list of labels; a Raw Response holds the verbatim body and the metadata
  (time received, duration of the request).
\<close>

datatype Action = SUBSCRIBE | UNSUBSCRIBE | UNRECOGNIZED int

record SubscriptionRequest =
  action :: Action
  product_id :: int
  label_list :: "string list"

record Metadata =
  response_datetime :: string
  request_duration :: real

record RawResponse =
  response_json :: string
  metadata :: Metadata

subsection \<open>The transport (requests)\<close>

record request =
  req_method :: string
  req_url :: string
  req_data :: "string option"
  req_params :: "(string \<times> pyval) list"

record prepared_request =
  p_method :: string
  p_url :: string
  p_body :: "string option"
  p_params :: "(string \<times> pyval) list"
  p_headers :: "(string \<times> string) list"

text \<open>
  What the module reads from a response: \<^verbatim>\<open>response.text\<close>,
  \<^verbatim>\<open>response.status_code\<close>, the outcome of calling \<^verbatim>\<open>response.json()\<close> (the parsed
  value, or the exception the parser raises), and \<^verbatim>\<open>response.cookies._now\<close>, the whole
  seconds since the epoch that the cookie jar of the transport recorded when it
  processed the response.
\<close>

record response =
  r_text :: string
  r_status_code :: int
  r_json :: "exn + pyval"
  r_cookies_now :: int

record session =
  session_headers :: "(string \<times> string) list"

subsection \<open>Time\<close>

record struct_time =
  tm_year :: int
  tm_mon :: int
  tm_mday :: int
  tm_hour :: int
  tm_min :: int
  tm_sec :: int
  tm_wday :: int
  tm_yday :: int
  tm_isdst :: int

subsection \<open>Logging\<close>

datatype level = DEBUG | INFO | FATAL

datatype log_arg = ArgVal pyval | ArgExn exn

record log_entry =
  lg_logger :: string
  lg_level :: level
  lg_msg :: log_arg
  lg_args :: "log_arg list"

subsection \<open>Environment and world\<close>

record env =
  Endpoint_URL :: string
  Endpoint_VERSION :: pyval
  Headers_get_headers :: "(string \<times> string) list"
  requests_default_headers :: "(string \<times> string) list"
  transport :: "prepared_request \<Rightarrow> bool \<Rightarrow> exn + response"
  clock :: "nat \<Rightarrow> real"
  localtime :: "int \<Rightarrow> struct_time"

record world =
  logs :: "log_entry list"
  sent :: "(prepared_request \<times> bool) list"
  ticks :: nat

text \<open>\<^verbatim>\<open>time.time()\<close>: the next reading of the system clock.\<close>

definition time_time :: "env \<Rightarrow> world \<Rightarrow> real \<times> world" where
  "time_time e w = (clock e (ticks w), w\<lparr>ticks := Suc (ticks w)\<rparr>)"

text \<open>
  \<^verbatim>\<open>session.send(prepped, verify=...)\<close>: the request is handed to the transport, which
  answers with a response or raises.
\<close>

definition session_send ::
  "env \<Rightarrow> prepared_request \<Rightarrow> bool \<Rightarrow> world \<Rightarrow> (exn + response) \<times> world" where
  "session_send e prepped verify w =
     (transport e prepped verify, w\<lparr>sent := sent w @ [(prepped, verify)]\<rparr>)"

definition logger_call :: "string \<Rightarrow> level \<Rightarrow> log_arg \<Rightarrow> log_arg list \<Rightarrow> world \<Rightarrow> world" where
  "logger_call logger lv msg args w =
     w\<lparr>logs := logs w @ [\<lparr>lg_logger = logger, lg_level = lv, lg_msg = msg, lg_args = args\<rparr>]\<rparr>"

definition logger_fatal :: "string \<Rightarrow> exn \<Rightarrow> world \<Rightarrow> world" where
  "logger_fatal logger ex w = logger_call logger FATAL (ArgExn ex) [] w"

definition logger_info :: "string \<Rightarrow> string \<Rightarrow> pyval \<Rightarrow> world \<Rightarrow> world" where
  "logger_info logger fmt arg w = logger_call logger INFO (ArgVal (PyStr fmt)) [ArgVal arg] w"

definition logger_debug :: "string \<Rightarrow> string \<Rightarrow> pyval \<Rightarrow> world \<Rightarrow> world" where
  "logger_debug logger fmt arg w = logger_call logger DEBUG (ArgVal (PyStr fmt)) [ArgVal arg] w"

subsection \<open>Python built-ins used by the module\<close>

text \<open>\<^verbatim>\<open>dict.update\<close> on an association list: a later binding replaces an earlier one.\<close>

fun dict_set :: "('k \<times> 'v) list \<Rightarrow> 'k \<Rightarrow> 'v \<Rightarrow> ('k \<times> 'v) list" where
  "dict_set [] k v = [(k, v)]"
| "dict_set ((k', v') # kvs) k v =
     (if k' = k then (k, v) # kvs else (k', v') # dict_set kvs k v)"

fun dict_update :: "('k \<times> 'v) list \<Rightarrow> ('k \<times> 'v) list \<Rightarrow> ('k \<times> 'v) list" where
  "dict_update d [] = d"
| "dict_update d ((k, v) # kvs) = dict_update (dict_set d k v) kvs"

text \<open>\<^verbatim>\<open>sep.join(xs)\<close>.\<close>

fun join :: "string \<Rightarrow> string list \<Rightarrow> string" where
  "join sep [] = []"
| "join sep [x] = x"
| "join sep (x # y # ys) = x @ sep @ join sep (y # ys)"

text \<open>\<^verbatim>\<open>str(n)\<close> for an integer, as an f-string renders it: decimal, \<^verbatim>\<open>-\<close> when negative.\<close>

definition digit_char :: "nat \<Rightarrow> char" where
  "digit_char d =
     (if d = 0 then CHR ''0'' else if d = 1 then CHR ''1'' else if d = 2 then CHR ''2''
      else if d = 3 then CHR ''3'' else if d = 4 then CHR ''4'' else if d = 5 then CHR ''5''
      else if d = 6 then CHR ''6'' else if d = 7 then CHR ''7'' else if d = 8 then CHR ''8''
      else CHR ''9'')"

fun str_of_nat :: "nat \<Rightarrow> string" where
  "str_of_nat n =
     (if n < 10 then [digit_char n] else str_of_nat (n div 10) @ [digit_char (n mod 10)])"

declare str_of_nat.simps [simp del]

definition str_of_int :: "int \<Rightarrow> string" where
  "str_of_int i = (if i < 0 then CHR ''-'' # str_of_nat (nat (- i)) else str_of_nat (nat i))"

text \<open>\<^verbatim>\<open>s.startswith(p)\<close> and the substring test \<^verbatim>\<open>p in s\<close> on strings.\<close>

fun startswith :: "string \<Rightarrow> string \<Rightarrow> bool" where
  "startswith s [] = True"
| "startswith [] (p # ps) = False"
| "startswith (c # cs) (p # ps) = (c = p \<and> startswith cs ps)"

fun str_contains :: "string \<Rightarrow> string \<Rightarrow> bool" where
  "str_contains p [] = (p = [])"
| "str_contains p (c # cs) = (startswith (c # cs) p \<or> str_contains p cs)"

text \<open>
  \<^verbatim>\<open>key in v\<close> for a string key: key membership on a dict, element membership on a
  list, substring test on a string, \<^verbatim>\<open>TypeError\<close> on a value that is not iterable
  (the messages of the \<^verbatim>\<open>TypeError\<close>s are abbreviated).
\<close>

fun py_contains :: "string \<Rightarrow> pyval \<Rightarrow> exn + bool" where
  "py_contains key (PyDict d) = Inr (key \<in> set (map fst d))"
| "py_contains key (PyList xs) = Inr (PyStr key \<in> set xs)"
| "py_contains key (PyStr s) = Inr (str_contains key s)"
| "py_contains key v = Inl (TypeError ''argument is not iterable'')"

text \<open>\<^verbatim>\<open>v[key]\<close> for a string key.\<close>

fun py_getitem :: "pyval \<Rightarrow> string \<Rightarrow> exn + pyval" where
  "py_getitem (PyDict d) key =
     (case map_of d key of None \<Rightarrow> Inl (KeyError key) | Some v \<Rightarrow> Inr v)"
| "py_getitem (PyList xs) key = Inl (TypeError ''list indices must be integers or slices, not str'')"
| "py_getitem (PyStr s) key = Inl (TypeError ''string indices must be integers'')"
| "py_getitem v key = Inl (TypeError ''object is not subscriptable'')"

text \<open>
  \<^verbatim>\<open>time.strftime(format, t)\<close> for the directives \<^verbatim>\<open>%Y %m %d %H %M %S %%\<close>: the year in
  decimal, the other fields in two digits with a leading zero; every other character of
  the format is copied.
\<close>

definition pad2 :: "int \<Rightarrow> string" where
  "pad2 n = (if 0 \<le> n \<and> n < 10 then CHR ''0'' # str_of_int n else str_of_int n)"

definition directive :: "char \<Rightarrow> struct_time \<Rightarrow> string" where
  "directive d t =
     (if d = CHR ''Y'' then str_of_int (tm_year t)
      else if d = CHR ''m'' then pad2 (tm_mon t)
      else if d = CHR ''d'' then pad2 (tm_mday t)
      else if d = CHR ''H'' then pad2 (tm_hour t)
      else if d = CHR ''M'' then pad2 (tm_min t)
      else if d = CHR ''S'' then pad2 (tm_sec t)
      else if d = CHR ''%'' then ''%''
      else [CHR ''%'', d])"

fun strftime :: "string \<Rightarrow> struct_time \<Rightarrow> string" where
  "strftime [] t = []"
| "strftime (c # cs) t =
     (if c = CHR ''%'' then
        (case cs of [] \<Rightarrow> [c] | d # ds \<Rightarrow> directive d t @ strftime ds t)
      else c # strftime cs t)"

subsection \<open>build_session, build_logger\<close>

definition build_session :: "env \<Rightarrow> (string \<times> string) list option \<Rightarrow> session" where
  "build_session e headers =
     (case headers of
        Some h \<Rightarrow> \<lparr>session_headers = dict_update (requests_default_headers e) h\<rparr>
      | None \<Rightarrow> \<lparr>session_headers = dict_update (requests_default_headers e) (Headers_get_headers e)\<rparr>)"

definition build_logger :: string where
  "build_logger = ''quotecast.utilities''"

text \<open>
  \<^verbatim>\<open>session.prepare_request(request)\<close>: the request with the headers of the session.
  The query parameters are kept beside the URL rather than encoded into it.
\<close>

definition prepare_request :: "session \<Rightarrow> request \<Rightarrow> prepared_request" where
  "prepare_request s r =
     \<lparr>p_method = req_method r, p_url = req_url r, p_body = req_data r,
      p_params = req_params r,
      p_headers = session_headers s\<rparr>"

subsection \<open>get_session_id\<close>

definition get_session_id ::
  "env \<Rightarrow> int \<Rightarrow> session option \<Rightarrow> string option \<Rightarrow> world \<Rightarrow> (exn + pyval) \<times> world" where
  \<open>get_session_id e user_token session logger w =
     (let logger = (case logger of None \<Rightarrow> build_logger | Some l \<Rightarrow> l);
          session = (case session of None \<Rightarrow> build_session e None | Some s \<Rightarrow> s);
          url = Endpoint_URL e;
          url = url @ ''/request_session'';
          version = Endpoint_VERSION e;
          parameters = [(''version'', version), (''userToken'', PyInt user_token)];
          data = ''{"referrer":"https://trader.degiro.nl"}'';
          request = \<lparr>req_method = ''POST'', req_url = url, req_data = Some data,
                     req_params = parameters\<rparr>;
          prepped = prepare_request session request;
          (sent_result, w) = session_send e prepped False w
      in case (case sent_result of Inl ex \<Rightarrow> Inl ex | Inr response \<Rightarrow> r_json response) of
           Inl ex \<Rightarrow> (Inr (PyBool False), logger_fatal logger ex w)
         | Inr response_dict \<Rightarrow>
             (let w = logger_info logger ''get_session_id:response_dict: %s'' response_dict w
              in case py_contains ''sessionId'' response_dict of
                   Inl ex \<Rightarrow> (Inl ex, w)
                 | Inr True \<Rightarrow> (py_getitem response_dict ''sessionId'', w)
                 | Inr False \<Rightarrow> (Inr PyNone, w)))\<close>

subsection \<open>fetch_data\<close>

definition fetch_data ::
  "env \<Rightarrow> string \<Rightarrow> session option \<Rightarrow> string option \<Rightarrow> world \<Rightarrow> (exn + RawResponse) \<times> world" where
  \<open>fetch_data e session_id session logger w =
     (let logger = (case logger of None \<Rightarrow> build_logger | Some l \<Rightarrow> l);
          session = (case session of None \<Rightarrow> build_session e None | Some s \<Rightarrow> s);
          url = Endpoint_URL e;
          url = url @ ''/'' @ session_id;
          request = \<lparr>req_method = ''GET'', req_url = url, req_data = None, req_params = []\<rparr>;
          prepped = prepare_request session request;
          (start, w) = time_time e w;
          (sent_result, w) = session_send e prepped False w
      in case sent_result of
           Inl ex \<Rightarrow> (Inl ex, w)
         | Inr response \<Rightarrow>
             (let (finish, w) = time_time e w;
                  request_duration' = finish - start
              in if r_text response = ''[{"m":"sr"}]'' then
                   (Inl (BrokenPipeError ''A new "session_id" is required.''), w)
                 else
                   (let response_datetime' =
                          strftime ''%Y-%m-%d %H:%M:%S'' (localtime e (r_cookies_now response));
                        metadata' = \<lparr>response_datetime = response_datetime',
                                     request_duration = request_duration'\<rparr>;
                        raw_response = \<lparr>response_json = r_text response, metadata = metadata'\<rparr>;
                        w = logger_debug logger ''fetch_data:raw_response.response_json: %s''
                              (PyStr (response_json raw_response)) w;
                        w = logger_debug logger ''fetch_data:raw_response.response_datetime: %s''
                              (PyStr (response_datetime metadata')) w;
                        w = logger_debug logger ''fetch_data:raw_response.request_duration: %s''
                              (PyFloat (request_duration metadata')) w
                    in (Inr raw_response, w))))\<close>

subsection \<open>subscribe\<close>

text \<open>
  The loop \<^verbatim>\<open>for label in label_list: data.append(f'{action}({product_id}.{label})')\<close>,
  with the list \<^verbatim>\<open>data\<close> built so far as the accumulator.
\<close>

fun append_tokens :: "string \<Rightarrow> int \<Rightarrow> string list \<Rightarrow> string list \<Rightarrow> string list" where
  "append_tokens verb pid [] data = data"
| "append_tokens verb pid (label # labels) data =
     append_tokens verb pid labels
       (data @ [verb @ ''('' @ str_of_int pid @ ''.'' @ label @ '')''])"

definition subscribe ::
  "env \<Rightarrow> SubscriptionRequest \<Rightarrow> string \<Rightarrow> session option \<Rightarrow> string option \<Rightarrow> world
     \<Rightarrow> (exn + bool) \<times> world" where
  \<open>subscribe e subscription_request session_id session logger w =
     (let logger = (case logger of None \<Rightarrow> build_logger | Some l \<Rightarrow> l);
          session = (case session of None \<Rightarrow> build_session e None | Some s \<Rightarrow> s);
          url = Endpoint_URL e;
          url = url @ ''/'' @ session_id
      in case (if action subscription_request = SUBSCRIBE then Inr ''req''
               else if action subscription_request = UNSUBSCRIBE then Inr ''rel''
               else Inl (AttributeError ''Unknown "Request.action".'')) of
           Inl ex \<Rightarrow> (Inl ex, w)
         | Inr verb \<Rightarrow>
             (let data = append_tokens verb (product_id subscription_request)
                           (label_list subscription_request) [];
                  data = ''{"controlData":"'' @ join '';'' data @ '';"}'';
                  request = \<lparr>req_method = ''POST'', req_url = url, req_data = Some data,
                             req_params = []\<rparr>;
                  prepped = prepare_request session request;
                  w = logger_info logger ''subscribe:payload: %s'' (PyStr data) w;
                  (sent_result, w) = session_send e prepped False w
              in case sent_result of
                   Inl ex \<Rightarrow> (Inr False, logger_fatal logger ex w)
                 | Inr response \<Rightarrow>
                     (let w = logger_debug logger ''subscribe:response.text: %s''
                                (PyStr (r_text response)) w;
                          w = logger_debug logger ''subscribe:response.status_code: %s''
                                (PyInt (r_status_code response)) w
                      in (Inr (r_status_code response = 200), w))))\<close>

subsection \<open>The control payload in the words of the specification\<close>

text \<open>
  The specification describes the body of a subscription request without reference to
  the loop: one token \<^verbatim>\<open>{verb}({product_id}.{label})\<close> for each label, in the order of
  the label list, the tokens joined by \<^verbatim>\<open>;\<close>, a trailing \<^verbatim>\<open>;\<close>, the whole wrapped
  as \<^verbatim>\<open>{"controlData":"..."}\<close>.
\<close>

definition spec_control_token :: "string \<Rightarrow> int \<Rightarrow> string \<Rightarrow> string" where
  "spec_control_token verb pid label = verb @ ''('' @ str_of_int pid @ ''.'' @ label @ '')''"

definition spec_control_payload :: "string \<Rightarrow> int \<Rightarrow> string list \<Rightarrow> string" where
  \<open>spec_control_payload verb pid labels =
     ''{"controlData":"'' @ join '';'' (map (spec_control_token verb pid) labels) @ '';"}''\<close>

text \<open>
  The timestamp layout \<^verbatim>\<open>YYYY-MM-DD HH:MM:SS\<close>: a letter of the layout stands for one
  decimal digit, every other character for itself.
\<close>

definition is_digit :: "char \<Rightarrow> bool" where
  "is_digit c = (c \<in> set ''0123456789'')"

fun matches_layout :: "string \<Rightarrow> string \<Rightarrow> bool" where
  "matches_layout [] [] = True"
| "matches_layout (p # ps) (c # cs) =
     ((if p \<in> set ''YMDHS'' then is_digit c else c = p) \<and> matches_layout ps cs)"
| "matches_layout ps cs = False"

definition spec_datetime_layout :: "string \<Rightarrow> bool" where
  "spec_datetime_layout s = matches_layout ''YYYY-MM-DD HH:MM:SS'' s"

text \<open>
  The fields of a broken-down time within their calendar ranges, the year in four digits.
\<close>

definition calendar_time :: "struct_time \<Rightarrow> bool" where
  "calendar_time t =
     (1000 \<le> tm_year t \<and> tm_year t \<le> 9999 \<and> 1 \<le> tm_mon t \<and> tm_mon t \<le> 12 \<and>
      1 \<le> tm_mday t \<and> tm_mday t \<le> 31 \<and> 0 \<le> tm_hour t \<and> tm_hour t \<le> 23 \<and>
      0 \<le> tm_min t \<and> tm_min t \<le> 59 \<and> 0 \<le> tm_sec t \<and> tm_sec t \<le> 61)"

subsection \<open>Concrete collaborators\<close>

text \<open>
  Environments on which the operations can be run: a transport that answers every
  request with one given response, a transport that raises on every request, a system
  clock that advances by one second per reading (and is three seconds ahead of the time
  the transport records), and \<^verbatim>\<open>time.localtime\<close> in the time zone
  UTC (the proleptic Gregorian calendar, computed from the day number). The endpoint
  constants and header sets are sample values.
\<close>

definition gmtime :: "int \<Rightarrow> struct_time" where
  "gmtime secs =
     (let days = secs div 86400;
          rem = secs mod 86400;
          z = days + 719468;
          era = z div 146097;
          doe = z - era * 146097;
          yoe = (doe - doe div 1460 + doe div 36524 - doe div 146096) div 365;
          doy = doe - (365 * yoe + yoe div 4 - yoe div 100);
          mp = (5 * doy + 2) div 153;
          d = doy - (153 * mp + 2) div 5 + 1;
          m = (if mp < 10 then mp + 3 else mp - 9);
          y = yoe + era * 400 + (if m \<le> 2 then 1 else 0);
          leap = (if y mod 4 = 0 \<and> (y mod 100 \<noteq> 0 \<or> y mod 400 = 0) then 1 else 0);
          yday = (if m \<le> 2 then doy - 305 else doy + 60 + leap)
      in \<lparr>tm_year = y, tm_mon = m, tm_mday = d,
          tm_hour = rem div 3600, tm_min = rem mod 3600 div 60, tm_sec = rem mod 60,
          tm_wday = (days + 3) mod 7, tm_yday = yday, tm_isdst = 0\<rparr>)"

definition world0 :: world where
  "world0 = \<lparr>logs = [], sent = [], ticks = 0\<rparr>"

definition replying :: "response \<Rightarrow> prepared_request \<Rightarrow> bool \<Rightarrow> exn + response" where
  "replying resp req verify = Inr resp"

definition refusing :: "prepared_request \<Rightarrow> bool \<Rightarrow> exn + response" where
  "refusing req verify = Inl (ConnectionError ''connection refused'')"

definition env_with :: "(prepared_request \<Rightarrow> bool \<Rightarrow> exn + response) \<Rightarrow> env" where
  "env_with t =
     \<lparr>Endpoint_URL = ''https://feed.example/CORS'',
      Endpoint_VERSION = PyStr ''1.0'',
      Headers_get_headers = [(''Origin'', ''https://trader.degiro.nl'')],
      requests_default_headers = [(''Accept'', ''*/*'')],
      transport = t,
      clock = (\<lambda>n. 1600000003 + real n),
      localtime = gmtime\<rparr>"

definition reply :: "string \<Rightarrow> int \<Rightarrow> exn + pyval \<Rightarrow> response" where
  "reply body status parsed =
     \<lparr>r_text = body, r_status_code = status, r_json = parsed, r_cookies_now = 1600000000\<rparr>"

definition sr_response :: response where
  \<open>sr_response = reply ''[{"m":"sr"}]'' 200 (Inr (PyList [PyDict [(''m'', PyStr ''sr'')]]))\<close>

definition update_response :: response where
  \<open>update_response =
     reply ''[{"m":"u","v":[1,2]}]'' 200
       (Inr (PyList [PyDict [(''m'', PyStr ''u''), (''v'', PyList [PyInt 1, PyInt 2])]]))\<close>

definition session_response :: response where
  \<open>session_response = reply ''{"sessionId": "X"}'' 200 (Inr (PyDict [(''sessionId'', PyStr ''X'')]))\<close>

definition garbage_response :: response where
  "garbage_response = reply ''<html>'' 200 (Inl (JSONDecodeError ''Expecting value''))"

definition not_found_response :: response where
  "not_found_response = reply [] 404 (Inl (JSONDecodeError ''Expecting value''))"

definition subscription_BA :: SubscriptionRequest where
  "subscription_BA = \<lparr>action = SUBSCRIBE, product_id = 360148977, label_list = [''B'', ''A'']\<rparr>"

definition empty_object_response :: response where
  "empty_object_response = reply ''{}'' 200 (Inr (PyDict []))"

definition ok_response :: response where
  "ok_response = reply [] 200 (Inl (JSONDecodeError ''Expecting value''))"

definition unsubscription_A :: SubscriptionRequest where
  "unsubscription_A = \<lparr>action = UNSUBSCRIBE, product_id = 5, label_list = [''LastPrice'']\<rparr>"

definition subscription_empty :: SubscriptionRequest where
  "subscription_empty = \<lparr>action = UNSUBSCRIBE, product_id = 360148977, label_list = []\<rparr>"

definition subscription_invalid :: SubscriptionRequest where
  "subscription_invalid = \<lparr>action = UNRECOGNIZED 2, product_id = 360148977, label_list = [''B'', ''A'']\<rparr>"

section \<open>Properties\<close>

subsection \<open>Helper lemmas\<close>

lemma append_tokens_map:
  "append_tokens verb pid labels acc = acc @ map (spec_control_token verb pid) labels"
  by (induction labels arbitrary: acc) (simp_all add: spec_control_token_def)

lemma subscribe_valid:
  assumes "action r = SUBSCRIBE \<and> verb = ''req'' \<or> action r = UNSUBSCRIBE \<and> verb = ''rel''"
  shows "subscribe e r sid s l w =
     (let logger = (case l of None \<Rightarrow> build_logger | Some n \<Rightarrow> n);
          prepped = \<lparr>p_method = ''POST'', p_url = Endpoint_URL e @ ''/'' @ sid,
                     p_body = Some (spec_control_payload verb (product_id r) (label_list r)),
                     p_params = [],
                     p_headers = session_headers (case s of None \<Rightarrow> build_session e None | Some x \<Rightarrow> x)\<rparr>;
          w1 = logger_info logger ''subscribe:payload: %s''
                 (PyStr (spec_control_payload verb (product_id r) (label_list r))) w;
          w2 = w1\<lparr>sent := sent w @ [(prepped, False)]\<rparr>
      in case transport e prepped False of
           Inl ex \<Rightarrow> (Inr False, logger_fatal logger ex w2)
         | Inr response \<Rightarrow>
             (Inr (r_status_code response = 200),
              logger_debug logger ''subscribe:response.status_code: %s'' (PyInt (r_status_code response))
                (logger_debug logger ''subscribe:response.text: %s'' (PyStr (r_text response)) w2)))"
  using assms
  by (auto simp add: subscribe_def Let_def session_send_def append_tokens_map spec_control_payload_def
       prepare_request_def logger_info_def logger_call_def split: sum.splits)

lemma subscribe_invalid:
  assumes "action r \<noteq> SUBSCRIBE" and "action r \<noteq> UNSUBSCRIBE"
  shows \<open>subscribe e r sid s l w = (Inl (AttributeError ''Unknown "Request.action".''), w)\<close>
  using assms by (simp add: subscribe_def Let_def)

lemma subscribe_sent:
  assumes "action r = SUBSCRIBE \<and> verb = ''req'' \<or> action r = UNSUBSCRIBE \<and> verb = ''rel''"
  shows "sent (snd (subscribe e r sid s l w)) = sent w @
     [(\<lparr>p_method = ''POST'', p_url = Endpoint_URL e @ ''/'' @ sid,
        p_body = Some (spec_control_payload verb (product_id r) (label_list r)),
        p_params = [],
        p_headers = session_headers (case s of None \<Rightarrow> build_session e None | Some x \<Rightarrow> x)\<rparr>, False)]"
  by (simp add: subscribe_valid[OF assms] Let_def logger_info_def logger_debug_def logger_fatal_def
        logger_call_def split: sum.splits)

lemma str_of_int_360148977: "str_of_int 360148977 = ''360148977''"
  by (simp add: str_of_int_def str_of_nat.simps digit_char_def)

lemma session_headers_env_with:
  "session_headers (build_session (env_with t) None) =
     [(''Accept'', ''*/*''), (''Origin'', ''https://trader.degiro.nl'')]"
  by (simp add: build_session_def env_with_def)

lemma logs_simps [simp]:
  "logs (logger_call lg lv m a w) = logs w @ [\<lparr>lg_logger = lg, lg_level = lv, lg_msg = m, lg_args = a\<rparr>]"
  "sent (logger_call lg lv m a w) = sent w"
  "ticks (logger_call lg lv m a w) = ticks w"
  by (simp_all add: logger_call_def)

lemma subscribe_sent_cases:
  assumes "sent (snd (subscribe e r sid s l w)) = sent w @ [(req, v)]"
  shows "action r = SUBSCRIBE \<or> action r = UNSUBSCRIBE"
proof (rule ccontr)
  assume "\<not> ?thesis"
  then have "subscribe e r sid s l w = (Inl (AttributeError ''Unknown \"Request.action\".''), w)"
    by (simp add: subscribe_invalid)
  with assms show False by simp
qed

lemma str_of_int_5: "str_of_int 5 = ''5''"
  by (simp add: str_of_int_def str_of_nat.simps digit_char_def)

lemma sent_subscribe_BA:
  "sent (snd (subscribe (env_with t) subscription_BA ''sid'' None None world0)) =
     sent world0 @
     [(\<lparr>p_method = ''POST'', p_url = ''https://feed.example/CORS/sid'',
        p_body = Some (spec_control_payload ''req'' 360148977 [''B'', ''A'']),
        p_params = [],
        p_headers = [(''Accept'', ''*/*''), (''Origin'', ''https://trader.degiro.nl'')]\<rparr>, False)]"
proof -
  have a: "action subscription_BA = SUBSCRIBE \<and> ''req'' = ''req'' \<or>
           action subscription_BA = UNSUBSCRIBE \<and> ''req'' = ''rel''"
    by (simp add: subscription_BA_def)
  have u: "Endpoint_URL (env_with t) @ ''/'' @ ''sid'' = ''https://feed.example/CORS/sid''"
    by (simp add: env_with_def)
  show ?thesis
    unfolding subscribe_sent [OF a] u
    by (simp add: session_headers_env_with subscription_BA_def)
qed

lemma fetch_data_sent:
  "sent (snd (fetch_data e sid s l w)) = sent w @
     [(\<lparr>p_method = ''GET'', p_url = Endpoint_URL e @ ''/'' @ sid, p_body = None, p_params = [],
        p_headers = session_headers (case s of None \<Rightarrow> build_session e None | Some x \<Rightarrow> x)\<rparr>, False)]"
  by (simp add: fetch_data_def Let_def session_send_def time_time_def prepare_request_def
        logger_debug_def split: sum.splits)

lemma fetch_data_raised:
  assumes "transport e
     \<lparr>p_method = ''GET'', p_url = Endpoint_URL e @ ''/'' @ sid, p_body = None, p_params = [],
        p_headers = session_headers (case s of None \<Rightarrow> build_session e None | Some x \<Rightarrow> x)\<rparr> False = Inl ex"
  shows "fetch_data e sid s l w =
     (Inl ex, w\<lparr>ticks := Suc (ticks w), sent := sent w @
       [(\<lparr>p_method = ''GET'', p_url = Endpoint_URL e @ ''/'' @ sid, p_body = None, p_params = [],
          p_headers = session_headers (case s of None \<Rightarrow> build_session e None | Some x \<Rightarrow> x)\<rparr>, False)]\<rparr>)"
  using assms
  by (simp add: fetch_data_def Let_def session_send_def time_time_def prepare_request_def)

lemma fetch_data_answered:
  assumes "transport e
     \<lparr>p_method = ''GET'', p_url = Endpoint_URL e @ ''/'' @ sid, p_body = None, p_params = [],
        p_headers = session_headers (case s of None \<Rightarrow> build_session e None | Some x \<Rightarrow> x)\<rparr> False = Inr resp"
  shows \<open>fst (fetch_data e sid s l w) =
     (if r_text resp = ''[{"m":"sr"}]'' then Inl (BrokenPipeError ''A new "session_id" is required.'')
      else Inr \<lparr>response_json = r_text resp,
                metadata = \<lparr>response_datetime =
                               strftime ''%Y-%m-%d %H:%M:%S'' (localtime e (r_cookies_now resp)),
                             request_duration = clock e (Suc (ticks w)) - clock e (ticks w)\<rparr>\<rparr>)\<close>
  using assms
  by (simp add: fetch_data_def Let_def session_send_def time_time_def prepare_request_def)

lemma transport_replying: "transport (env_with (replying resp)) req v = Inr resp"
  by (simp add: env_with_def replying_def)

lemma transport_refusing:
  "transport (env_with refusing) req v = Inl (ConnectionError ''connection refused'')"
  by (simp add: env_with_def refusing_def)


lemma is_digit_digit_char: "is_digit (digit_char d)"
  by (simp add: is_digit_def digit_char_def)

lemma str_of_nat_1: "n < 10 \<Longrightarrow> str_of_nat n = [digit_char n]"
  by (subst str_of_nat.simps) simp

lemma str_of_nat_step: "10 \<le> n \<Longrightarrow> str_of_nat n = str_of_nat (n div 10) @ [digit_char (n mod 10)]"
  by (subst str_of_nat.simps) simp

lemma str_of_nat_2:
  assumes "10 \<le> n" and "n < 100"
  shows "str_of_nat n = [digit_char (n div 10), digit_char (n mod 10)]"
proof -
  from assms have "n div 10 < 10" by arith
  with assms(1) show ?thesis
    by (simp add: str_of_nat_step str_of_nat_1)
qed

lemma str_of_nat_4:
  assumes "1000 \<le> n" and "n < 10000"
  shows "str_of_nat n =
    [digit_char (n div 10 div 10 div 10), digit_char (n div 10 div 10 mod 10),
     digit_char (n div 10 mod 10), digit_char (n mod 10)]"
proof -
  from assms have a: "10 \<le> n" "10 \<le> n div 10" "10 \<le> n div 10 div 10" "n div 10 div 10 div 10 < 10"
    by arith+
  show ?thesis
    by (simp add: str_of_nat_step [OF a(1)] str_of_nat_step [OF a(2)] str_of_nat_step [OF a(3)]
          str_of_nat_1 [OF a(4)])
qed

lemma pad2_digits:
  assumes "0 \<le> n" and "n \<le> 99"
  shows "\<exists>a b. pad2 n = [a, b] \<and> is_digit a \<and> is_digit b"
proof (cases "n < 10")
  case True
  with assms(1) have "pad2 n = [CHR ''0'', digit_char (nat n)]"
    by (simp add: pad2_def str_of_int_def str_of_nat_1)
  then show ?thesis
    by (simp add: is_digit_digit_char) (simp add: is_digit_def)
next
  case False
  with assms have "10 \<le> nat n" "nat n < 100" by arith+
  then have "str_of_nat (nat n) = [digit_char (nat n div 10), digit_char (nat n mod 10)]"
    by (rule str_of_nat_2)
  with False assms(1) show ?thesis
    by (simp add: pad2_def str_of_int_def is_digit_digit_char)
qed

lemma year_digits:
  assumes "1000 \<le> y" and "y \<le> 9999"
  shows "\<exists>a b c d. str_of_int y = [a, b, c, d] \<and> is_digit a \<and> is_digit b \<and> is_digit c \<and> is_digit d"
proof -
  from assms have "1000 \<le> nat y" "nat y < 10000" by arith+
  then have "str_of_nat (nat y) =
    [digit_char (nat y div 10 div 10 div 10), digit_char (nat y div 10 div 10 mod 10),
     digit_char (nat y div 10 mod 10), digit_char (nat y mod 10)]"
    by (rule str_of_nat_4)
  with assms(1) show ?thesis
    by (simp add: str_of_int_def is_digit_digit_char)
qed

lemma strftime_layout:
  assumes "calendar_time t"
  shows "spec_datetime_layout (strftime ''%Y-%m-%d %H:%M:%S'' t)"
proof -
  from assms obtain y1 y2 y3 y4 where
    y: "str_of_int (tm_year t) = [y1, y2, y3, y4]" "is_digit y1" "is_digit y2" "is_digit y3" "is_digit y4"
    using year_digits [of "tm_year t"] by (auto simp add: calendar_time_def)
  from assms obtain m1 m2 where m: "pad2 (tm_mon t) = [m1, m2]" "is_digit m1" "is_digit m2"
    using pad2_digits [of "tm_mon t"] by (auto simp add: calendar_time_def)
  from assms obtain d1 d2 where d: "pad2 (tm_mday t) = [d1, d2]" "is_digit d1" "is_digit d2"
    using pad2_digits [of "tm_mday t"] by (auto simp add: calendar_time_def)
  from assms obtain h1 h2 where h: "pad2 (tm_hour t) = [h1, h2]" "is_digit h1" "is_digit h2"
    using pad2_digits [of "tm_hour t"] by (auto simp add: calendar_time_def)
  from assms obtain n1 n2 where n: "pad2 (tm_min t) = [n1, n2]" "is_digit n1" "is_digit n2"
    using pad2_digits [of "tm_min t"] by (auto simp add: calendar_time_def)
  from assms obtain s1 s2 where s: "pad2 (tm_sec t) = [s1, s2]" "is_digit s1" "is_digit s2"
    using pad2_digits [of "tm_sec t"] by (auto simp add: calendar_time_def)
  have "strftime ''%Y-%m-%d %H:%M:%S'' t =
          [y1, y2, y3, y4, CHR ''-'', m1, m2, CHR ''-'', d1, d2, CHR '' '',
           h1, h2, CHR '':'', n1, n2, CHR '':'', s1, s2]"
    by (simp add: directive_def y(1) m(1) d(1) h(1) n(1) s(1))
  then show ?thesis
    by (simp add: spec_datetime_layout_def y m d h n s)
qed


lemma gmtime_example:
  "gmtime 1600000000 =
     \<lparr>tm_year = 2020, tm_mon = 9, tm_mday = 13, tm_hour = 12, tm_min = 26, tm_sec = 40,
      tm_wday = 6, tm_yday = 257, tm_isdst = 0\<rparr>"
  by code_simp

lemma strftime_example:
  "strftime ''%Y-%m-%d %H:%M:%S'' (gmtime 1600000000) = ''2020-09-13 12:26:40''"
  by (simp add: gmtime_example directive_def pad2_def str_of_int_def str_of_nat.simps digit_char_def)

lemma calendar_time_example: "calendar_time (gmtime 1600000000)"
  by (simp add: gmtime_example calendar_time_def)


lemma get_session_id_sent:
  \<open>sent (snd (get_session_id e tok s l w)) = sent w @
     [(\<lparr>p_method = ''POST'', p_url = Endpoint_URL e @ ''/request_session'',
        p_body = Some ''{"referrer":"https://trader.degiro.nl"}'',
        p_params = [(''version'', Endpoint_VERSION e), (''userToken'', PyInt tok)],
        p_headers = session_headers (case s of None \<Rightarrow> build_session e None | Some x \<Rightarrow> x)\<rparr>, False)]\<close>
  by (simp add: get_session_id_def Let_def session_send_def prepare_request_def
        logger_info_def logger_fatal_def split: sum.splits bool.splits)

lemma get_session_id_raised:
  assumes \<open>transport e
     \<lparr>p_method = ''POST'', p_url = Endpoint_URL e @ ''/request_session'',
        p_body = Some ''{"referrer":"https://trader.degiro.nl"}'',
        p_params = [(''version'', Endpoint_VERSION e), (''userToken'', PyInt tok)],
        p_headers = session_headers (case s of None \<Rightarrow> build_session e None | Some x \<Rightarrow> x)\<rparr>
     False = Inl ex\<close>
  shows "fst (get_session_id e tok s l w) = Inr (PyBool False) \<and>
         logs (snd (get_session_id e tok s l w)) = logs w @
           [\<lparr>lg_logger = (case l of None \<Rightarrow> build_logger | Some n \<Rightarrow> n), lg_level = FATAL,
             lg_msg = ArgExn ex, lg_args = []\<rparr>]"
  using assms
  by (simp add: get_session_id_def Let_def session_send_def prepare_request_def logger_fatal_def)

lemma get_session_id_answered:
  assumes \<open>transport e
     \<lparr>p_method = ''POST'', p_url = Endpoint_URL e @ ''/request_session'',
        p_body = Some ''{"referrer":"https://trader.degiro.nl"}'',
        p_params = [(''version'', Endpoint_VERSION e), (''userToken'', PyInt tok)],
        p_headers = session_headers (case s of None \<Rightarrow> build_session e None | Some x \<Rightarrow> x)\<rparr>
     False = Inr resp\<close>
  shows "fst (get_session_id e tok s l w) =
     (case r_json resp of
        Inl ex \<Rightarrow> Inr (PyBool False)
      | Inr response_dict \<Rightarrow>
          (case py_contains ''sessionId'' response_dict of
             Inl ex \<Rightarrow> Inl ex
           | Inr True \<Rightarrow> py_getitem response_dict ''sessionId''
           | Inr False \<Rightarrow> Inr PyNone))"
  using assms
  by (simp add: get_session_id_def Let_def session_send_def prepare_request_def
        split: sum.splits bool.splits)

lemma get_session_id_dict:
  assumes \<open>transport e
     \<lparr>p_method = ''POST'', p_url = Endpoint_URL e @ ''/request_session'',
        p_body = Some ''{"referrer":"https://trader.degiro.nl"}'',
        p_params = [(''version'', Endpoint_VERSION e), (''userToken'', PyInt tok)],
        p_headers = session_headers (case s of None \<Rightarrow> build_session e None | Some x \<Rightarrow> x)\<rparr>
     False = Inr resp\<close> and "r_json resp = Inr (PyDict d)"
  shows "fst (get_session_id e tok s l w) =
           (case map_of d ''sessionId'' of None \<Rightarrow> Inr PyNone | Some x \<Rightarrow> Inr x)"
proof (cases "map_of d ''sessionId''")
  case None
  then have "''sessionId'' \<notin> fst ` set d"
    by (simp add: map_of_eq_None_iff)
  with None show ?thesis
    by (simp add: get_session_id_answered [OF assms(1)] assms(2))
next
  case (Some x)
  then have "''sessionId'' \<in> fst ` set d"
    using map_of_eq_None_iff [of d "''sessionId''"] by simp
  with Some show ?thesis
    by (simp add: get_session_id_answered [OF assms(1)] assms(2))
qed


lemma subscribe_raised:
  assumes "sent (snd (subscribe e r sid s l w)) = sent w @ [(req, v)]"
    and "transport e req v = Inl ex"
  shows "fst (subscribe e r sid s l w) = Inr False \<and>
         last (logs (snd (subscribe e r sid s l w))) =
           \<lparr>lg_logger = (case l of None \<Rightarrow> build_logger | Some n \<Rightarrow> n), lg_level = FATAL,
            lg_msg = ArgExn ex, lg_args = []\<rparr>"
proof -
  from assms(1) have "action r = SUBSCRIBE \<or> action r = UNSUBSCRIBE"
    by (rule subscribe_sent_cases)
  then obtain verb where
    verb: "action r = SUBSCRIBE \<and> verb = ''req'' \<or> action r = UNSUBSCRIBE \<and> verb = ''rel''"
    by auto
  from assms(1) have req: "(req, v) =
     (\<lparr>p_method = ''POST'', p_url = Endpoint_URL e @ ''/'' @ sid,
        p_body = Some (spec_control_payload verb (product_id r) (label_list r)),
        p_params = [],
        p_headers = session_headers (case s of None \<Rightarrow> build_session e None | Some x \<Rightarrow> x)\<rparr>, False)"
    unfolding subscribe_sent [OF verb] by simp
  with assms(2) show ?thesis
    by (simp add: subscribe_valid [OF verb] Let_def logger_info_def logger_fatal_def)
qed


subsection \<open>Subscription control\<close>

text \<open>
  C2. For every Subscription Request whose action is SUBSCRIBE or UNSUBSCRIBE,
  \<^verbatim>\<open>subscribe\<close> hands exactly one request to the transport: a POST to
  \<^verbatim>\<open>{endpoint}/{session_id}\<close> whose body is \<^verbatim>\<open>{"controlData":"..."}\<close> with one token
  \<^verbatim>\<open>{verb}({product_id}.{label})\<close> per label, in the order of the label list (neither
  deduplicated nor sorted), joined by \<^verbatim>\<open>;\<close> and closed by a trailing \<^verbatim>\<open>;\<close>. At
  action SUBSCRIBE, product 360148977 and labels B, A the body is
  \<^verbatim>\<open>{"controlData":"req(360148977.B);req(360148977.A);"}\<close>.
\<close>

theorem subscribe_payload:
  assumes "action r = SUBSCRIBE \<and> verb = ''req'' \<or> action r = UNSUBSCRIBE \<and> verb = ''rel''"
  shows "sent (snd (subscribe e r sid s l w)) = sent w @
     [(\<lparr>p_method = ''POST'', p_url = Endpoint_URL e @ ''/'' @ sid,
        p_body = Some (spec_control_payload verb (product_id r) (label_list r)),
        p_params = [],
        p_headers = session_headers (case s of None \<Rightarrow> build_session e None | Some x \<Rightarrow> x)\<rparr>, False)]"
  using assms by (rule subscribe_sent)

theorem subscribe_payload_witness:
  \<open>action subscription_BA = SUBSCRIBE \<and>
   sent (snd (subscribe (env_with refusing) subscription_BA ''sid'' None None world0)) =
     [(\<lparr>p_method = ''POST'', p_url = ''https://feed.example/CORS/sid'',
        p_body = Some ''{"controlData":"req(360148977.B);req(360148977.A);"}'',
        p_params = [],
        p_headers = [(''Accept'', ''*/*''), (''Origin'', ''https://trader.degiro.nl'')]\<rparr>, False)]\<close>
proof -
  have act: "action subscription_BA = SUBSCRIBE"
    by (simp add: subscription_BA_def)
  then have a: "action subscription_BA = SUBSCRIBE \<and> ''req'' = ''req'' \<or>
                action subscription_BA = UNSUBSCRIBE \<and> ''req'' = ''rel''"
    by simp
  have p: \<open>spec_control_payload ''req'' (product_id subscription_BA) (label_list subscription_BA) =
           ''{"controlData":"req(360148977.B);req(360148977.A);"}''\<close>
    by (simp add: spec_control_payload_def spec_control_token_def subscription_BA_def
          str_of_int_360148977)
  have u: "Endpoint_URL (env_with refusing) @ ''/'' @ ''sid'' = ''https://feed.example/CORS/sid''"
    by (simp add: env_with_def)
  have "sent (snd (subscribe (env_with refusing) subscription_BA ''sid'' None None world0)) =
     [(\<lparr>p_method = ''POST'', p_url = ''https://feed.example/CORS/sid'',
        p_body = Some (spec_control_payload ''req'' (product_id subscription_BA)
                         (label_list subscription_BA)),
        p_params = [],
        p_headers = [(''Accept'', ''*/*''), (''Origin'', ''https://trader.degiro.nl'')]\<rparr>, False)]"
    using subscribe_payload [OF a, of "env_with refusing" "''sid''" None None world0]
    unfolding u by (simp add: session_headers_env_with world0_def)
  with act show ?thesis
    unfolding p by (rule conjI)
qed

text \<open>
  C3. The verb of the control payload is \<^verbatim>\<open>req\<close> when the action is SUBSCRIBE and
  \<^verbatim>\<open>rel\<close> when it is UNSUBSCRIBE. For any other action value \<^verbatim>\<open>subscribe\<close> raises
  (an \<^verbatim>\<open>AttributeError\<close>) and hands nothing to the transport: the action is never
  mapped to a default verb.
\<close>

theorem subscribe_verb:
  \<open>(action r = SUBSCRIBE \<longrightarrow>
      map (p_body \<circ> fst) (sent (snd (subscribe e r sid s l w))) =
        map (p_body \<circ> fst) (sent w) @
          [Some (spec_control_payload ''req'' (product_id r) (label_list r))]) \<and>
    (action r = UNSUBSCRIBE \<longrightarrow>
      map (p_body \<circ> fst) (sent (snd (subscribe e r sid s l w))) =
        map (p_body \<circ> fst) (sent w) @
          [Some (spec_control_payload ''rel'' (product_id r) (label_list r))]) \<and>
    (action r \<noteq> SUBSCRIBE \<and> action r \<noteq> UNSUBSCRIBE \<longrightarrow>
      fst (subscribe e r sid s l w) = Inl (AttributeError ''Unknown "Request.action".'') \<and>
      sent (snd (subscribe e r sid s l w)) = sent w)\<close>
proof (intro conjI impI)
  assume "action r = SUBSCRIBE"
  then show "map (p_body \<circ> fst) (sent (snd (subscribe e r sid s l w))) =
        map (p_body \<circ> fst) (sent w) @
          [Some (spec_control_payload ''req'' (product_id r) (label_list r))]"
    by (simp add: subscribe_sent [where verb = "''req''"])
next
  assume "action r = UNSUBSCRIBE"
  then show "map (p_body \<circ> fst) (sent (snd (subscribe e r sid s l w))) =
        map (p_body \<circ> fst) (sent w) @
          [Some (spec_control_payload ''rel'' (product_id r) (label_list r))]"
    by (simp add: subscribe_sent [where verb = "''rel''"])
next
  assume "action r \<noteq> SUBSCRIBE \<and> action r \<noteq> UNSUBSCRIBE"
  then show \<open>fst (subscribe e r sid s l w) = Inl (AttributeError ''Unknown "Request.action".'')\<close>
    by (simp add: subscribe_invalid)
next
  assume "action r \<noteq> SUBSCRIBE \<and> action r \<noteq> UNSUBSCRIBE"
  then show "sent (snd (subscribe e r sid s l w)) = sent w"
    by (simp add: subscribe_invalid)
qed

theorem subscribe_verb_witness:
  \<open>(action subscription_BA = SUBSCRIBE \<and>
     map (p_body \<circ> fst)
       (sent (snd (subscribe (env_with refusing) subscription_BA ''sid'' None None world0))) =
       [Some ''{"controlData":"req(360148977.B);req(360148977.A);"}'']) \<and>
    (action unsubscription_A = UNSUBSCRIBE \<and>
     map (p_body \<circ> fst)
       (sent (snd (subscribe (env_with refusing) unsubscription_A ''sid'' None None world0))) =
       [Some ''{"controlData":"rel(5.LastPrice);"}'']) \<and>
    (action subscription_invalid \<noteq> SUBSCRIBE \<and> action subscription_invalid \<noteq> UNSUBSCRIBE \<and>
     fst (subscribe (env_with refusing) subscription_invalid ''sid'' None None world0) =
       Inl (AttributeError ''Unknown "Request.action".'') \<and>
     sent (snd (subscribe (env_with refusing) subscription_invalid ''sid'' None None world0)) = [])\<close>
proof -
  have p1: \<open>spec_control_payload ''req'' (product_id subscription_BA) (label_list subscription_BA) =
           ''{"controlData":"req(360148977.B);req(360148977.A);"}''\<close>
    by (simp add: spec_control_payload_def spec_control_token_def subscription_BA_def
          str_of_int_360148977)
  have p2: \<open>spec_control_payload ''rel'' (product_id unsubscription_A) (label_list unsubscription_A) =
           ''{"controlData":"rel(5.LastPrice);"}''\<close>
    by (simp add: spec_control_payload_def spec_control_token_def unsubscription_A_def
          str_of_int_5)
  have a1: "action subscription_BA = SUBSCRIBE"
    by (simp add: subscription_BA_def)
  have a2: "action unsubscription_A = UNSUBSCRIBE"
    by (simp add: unsubscription_A_def)
  have a3: "action subscription_invalid \<noteq> SUBSCRIBE \<and> action subscription_invalid \<noteq> UNSUBSCRIBE"
    by (simp add: subscription_invalid_def)
  have s0: "sent world0 = []"
    by (simp add: world0_def)
  note t1 = subscribe_verb [of subscription_BA "env_with refusing" "''sid''" None None world0]
  note t2 = subscribe_verb [of unsubscription_A "env_with refusing" "''sid''" None None world0]
  note t3 = subscribe_verb [of subscription_invalid "env_with refusing" "''sid''" None None world0]
  from t1 a1 have c1: "map (p_body \<circ> fst)
       (sent (snd (subscribe (env_with refusing) subscription_BA ''sid'' None None world0))) =
       [Some (spec_control_payload ''req'' (product_id subscription_BA) (label_list subscription_BA))]"
    by (simp add: s0)
  from t2 a2 have c2: "map (p_body \<circ> fst)
       (sent (snd (subscribe (env_with refusing) unsubscription_A ''sid'' None None world0))) =
       [Some (spec_control_payload ''rel'' (product_id unsubscription_A) (label_list unsubscription_A))]"
    by (simp add: s0)
  from t3 a3 have c3:
    \<open>fst (subscribe (env_with refusing) subscription_invalid ''sid'' None None world0) =
       Inl (AttributeError ''Unknown "Request.action".'') \<and>
     sent (snd (subscribe (env_with refusing) subscription_invalid ''sid'' None None world0)) = []\<close>
    by (simp add: s0)
  from a1 a2 a3 c1 c2 c3 show ?thesis
    unfolding p1 p2 by blast
qed

text \<open>
  C9. With an empty label list and a valid action the POST is still issued, and its body
  is exactly \<^verbatim>\<open>{"controlData":";"}\<close>: the trailing semicolon is there with zero labels.
\<close>

theorem subscribe_no_labels:
  assumes "action r = SUBSCRIBE \<or> action r = UNSUBSCRIBE" and "label_list r = []"
  shows \<open>sent (snd (subscribe e r sid s l w)) = sent w @
     [(\<lparr>p_method = ''POST'', p_url = Endpoint_URL e @ ''/'' @ sid,
        p_body = Some ''{"controlData":";"}'',
        p_params = [],
        p_headers = session_headers (case s of None \<Rightarrow> build_session e None | Some x \<Rightarrow> x)\<rparr>, False)]\<close>
proof -
  have p: \<open>spec_control_payload verb (product_id r) (label_list r) = ''{"controlData":";"}''\<close> for verb
    by (simp add: spec_control_payload_def assms(2))
  from assms(1) show ?thesis
  proof
    assume "action r = SUBSCRIBE"
    then show ?thesis by (simp add: subscribe_sent [where verb = "''req''"] p)
  next
    assume "action r = UNSUBSCRIBE"
    then show ?thesis by (simp add: subscribe_sent [where verb = "''rel''"] p)
  qed
qed

theorem subscribe_no_labels_witness:
  \<open>(action subscription_empty = SUBSCRIBE \<or> action subscription_empty = UNSUBSCRIBE) \<and>
   label_list subscription_empty = [] \<and>
   sent (snd (subscribe (env_with refusing) subscription_empty ''sid'' None None world0)) =
     [(\<lparr>p_method = ''POST'', p_url = ''https://feed.example/CORS/sid'',
        p_body = Some ''{"controlData":";"}'',
        p_params = [],
        p_headers = [(''Accept'', ''*/*''), (''Origin'', ''https://trader.degiro.nl'')]\<rparr>, False)]\<close>
proof -
  have a: "action subscription_empty = SUBSCRIBE \<or> action subscription_empty = UNSUBSCRIBE"
    and b: "label_list subscription_empty = []"
    by (simp_all add: subscription_empty_def)
  have u: "Endpoint_URL (env_with refusing) @ ''/'' @ ''sid'' = ''https://feed.example/CORS/sid''"
    by (simp add: env_with_def)
  have \<open>sent (snd (subscribe (env_with refusing) subscription_empty ''sid'' None None world0)) =
     [(\<lparr>p_method = ''POST'', p_url = ''https://feed.example/CORS/sid'',
        p_body = Some ''{"controlData":";"}'',
        p_params = [],
        p_headers = [(''Accept'', ''*/*''), (''Origin'', ''https://trader.degiro.nl'')]\<rparr>, False)]\<close>
    using subscribe_no_labels [OF a b, of "env_with refusing" "''sid''" None None world0]
    unfolding u by (simp add: session_headers_env_with world0_def)
  with a b show ?thesis by blast
qed

text \<open>
  C10. With an action outside {SUBSCRIBE, UNSUBSCRIBE} the error is raised before the
  payload is built and before a request is prepared, logged or sent: the world after the
  call is the world before it, so the call has no network effect at all.
\<close>

theorem subscribe_invalid_action_no_effect:
  assumes "action r \<noteq> SUBSCRIBE" and "action r \<noteq> UNSUBSCRIBE"
  shows \<open>subscribe e r sid s l w = (Inl (AttributeError ''Unknown "Request.action".''), w)\<close>
  using assms by (rule subscribe_invalid)

theorem subscribe_invalid_action_no_effect_witness:
  \<open>action subscription_invalid \<noteq> SUBSCRIBE \<and> action subscription_invalid \<noteq> UNSUBSCRIBE \<and>
   subscribe (env_with (replying ok_response)) subscription_invalid ''sid'' None None world0 =
     (Inl (AttributeError ''Unknown "Request.action".''), world0)\<close>
proof -
  have a: "action subscription_invalid \<noteq> SUBSCRIBE" and b: "action subscription_invalid \<noteq> UNSUBSCRIBE"
    by (simp_all add: subscription_invalid_def)
  from a b subscribe_invalid_action_no_effect
         [OF a b, of "env_with (replying ok_response)" "''sid''" None None world0]
  show ?thesis by blast
qed

text \<open>
  C5. When the send of \<^verbatim>\<open>subscribe\<close> succeeds, the call returns (it does not raise) the
  truth value of "the status code is 200", whatever the status code is, and it logs the
  payload at info level and the response at debug level only: a status other than 200
  is not treated as a transport error (nothing is logged at fatal level).
\<close>

theorem subscribe_status_code:
  assumes "sent (snd (subscribe e r sid s l w)) = sent w @ [(req, v)]"
    and "transport e req v = Inr resp"
  shows "fst (subscribe e r sid s l w) = Inr (r_status_code resp = 200) \<and>
         map lg_level (logs (snd (subscribe e r sid s l w))) =
           map lg_level (logs w) @ [INFO, DEBUG, DEBUG]"
proof -
  from assms(1) have "action r = SUBSCRIBE \<or> action r = UNSUBSCRIBE"
    by (rule subscribe_sent_cases)
  then obtain verb where
    verb: "action r = SUBSCRIBE \<and> verb = ''req'' \<or> action r = UNSUBSCRIBE \<and> verb = ''rel''"
    by auto
  from assms(1) have req: "(req, v) =
     (\<lparr>p_method = ''POST'', p_url = Endpoint_URL e @ ''/'' @ sid,
        p_body = Some (spec_control_payload verb (product_id r) (label_list r)),
        p_params = [],
        p_headers = session_headers (case s of None \<Rightarrow> build_session e None | Some x \<Rightarrow> x)\<rparr>, False)"
    unfolding subscribe_sent [OF verb] by simp
  with assms(2) show ?thesis
    by (simp add: subscribe_valid [OF verb] Let_def logger_info_def logger_debug_def)
qed

theorem subscribe_status_code_witness:
  "fst (subscribe (env_with (replying not_found_response)) subscription_BA ''sid'' None None world0) =
     Inr False \<and>
   fst (subscribe (env_with (replying ok_response)) subscription_BA ''sid'' None None world0) =
     Inr True \<and>
   map lg_level
     (logs (snd (subscribe (env_with (replying not_found_response)) subscription_BA ''sid''
        None None world0))) = [INFO, DEBUG, DEBUG]"
proof -
  have t1: "transport (env_with (replying not_found_response)) req False = Inr not_found_response" for req
    by (simp add: env_with_def replying_def)
  have t2: "transport (env_with (replying ok_response)) req False = Inr ok_response" for req
    by (simp add: env_with_def replying_def)
  note r1 = subscribe_status_code [OF sent_subscribe_BA t1]
  note r2 = subscribe_status_code [OF sent_subscribe_BA t2]
  have c: "r_status_code not_found_response = 404" "r_status_code ok_response = 200"
    by (simp_all add: not_found_response_def ok_response_def reply_def)
  from r1 r2 show ?thesis
    by (simp add: c world0_def)
qed

subsection \<open>Data polling\<close>

text \<open>
  C1. For every poll that receives a response: if the body is textually exactly
  \<^verbatim>\<open>[{"m":"sr"}]\<close>, \<^verbatim>\<open>fetch_data\<close> fails with the session-expired error (the
  \<^verbatim>\<open>BrokenPipeError\<close> asking for a new session id); for every other body, the empty
  one and one that is not JSON included, it returns a Raw Response whose response text is
  the body itself.
\<close>

theorem fetch_data_sentinel:
  assumes "sent (snd (fetch_data e sid s l w)) = sent w @ [(req, v)]"
    and "transport e req v = Inr resp"
  shows \<open>(r_text resp = ''[{"m":"sr"}]'' \<longrightarrow>
            fst (fetch_data e sid s l w) = Inl (BrokenPipeError ''A new "session_id" is required.'')) \<and>
         (r_text resp \<noteq> ''[{"m":"sr"}]'' \<longrightarrow>
            (\<exists>rr. fst (fetch_data e sid s l w) = Inr rr \<and> response_json rr = r_text resp))\<close>
proof -
  from assms(1) have "(req, v) =
     (\<lparr>p_method = ''GET'', p_url = Endpoint_URL e @ ''/'' @ sid, p_body = None, p_params = [],
        p_headers = session_headers (case s of None \<Rightarrow> build_session e None | Some x \<Rightarrow> x)\<rparr>, False)"
    unfolding fetch_data_sent by simp
  with assms(2) have "transport e
     \<lparr>p_method = ''GET'', p_url = Endpoint_URL e @ ''/'' @ sid, p_body = None, p_params = [],
        p_headers = session_headers (case s of None \<Rightarrow> build_session e None | Some x \<Rightarrow> x)\<rparr> False = Inr resp"
    by simp
  then show ?thesis
    by (simp add: fetch_data_answered)
qed

theorem fetch_data_sentinel_witness:
  \<open>fst (fetch_data (env_with (replying sr_response)) ''sid'' None None world0) =
     Inl (BrokenPipeError ''A new "session_id" is required.'') \<and>
   (\<exists>rr. fst (fetch_data (env_with (replying update_response)) ''sid'' None None world0) = Inr rr \<and>
         response_json rr = ''[{"m":"u","v":[1,2]}]'') \<and>
   (\<exists>rr. fst (fetch_data (env_with (replying not_found_response)) ''sid'' None None world0) = Inr rr \<and>
         response_json rr = [])\<close>
proof -
  note t1 = fetch_data_sentinel [OF fetch_data_sent transport_replying,
              of sr_response "''sid''" None None world0]
  note t2 = fetch_data_sentinel [OF fetch_data_sent transport_replying,
              of update_response "''sid''" None None world0]
  note t3 = fetch_data_sentinel [OF fetch_data_sent transport_replying,
              of not_found_response "''sid''" None None world0]
  have b: \<open>r_text sr_response = ''[{"m":"sr"}]''\<close>
          \<open>r_text update_response = ''[{"m":"u","v":[1,2]}]''\<close>
          \<open>r_text not_found_response = []\<close>
    by (simp_all add: sr_response_def update_response_def not_found_response_def reply_def)
  from t1 t2 t3 show ?thesis
    unfolding b by simp
qed

text \<open>
  C8. For every successful poll the time of reception in the Raw Response is computed
  from the time the cookie jar of the transport recorded for the response
  (\<^verbatim>\<open>response.cookies._now\<close>), not from a reading of the system clock: it is the same
  whatever the system clock shows. It is laid out as \<^verbatim>\<open>YYYY-MM-DD HH:MM:SS\<close>, for a
  local time with a four-digit year.
\<close>

theorem fetch_data_timestamp:
  assumes "sent (snd (fetch_data e sid s l w)) = sent w @ [(req, v)]"
    and "transport e req v = Inr resp"
    and \<open>r_text resp \<noteq> ''[{"m":"sr"}]''\<close>
    and "calendar_time (localtime e (r_cookies_now resp))"
  shows "\<exists>rr. fst (fetch_data e sid s l w) = Inr rr \<and>
           response_datetime (metadata rr) =
             strftime ''%Y-%m-%d %H:%M:%S'' (localtime e (r_cookies_now resp)) \<and>
           spec_datetime_layout (response_datetime (metadata rr)) \<and>
           (\<forall>c n. \<exists>rr'. fst (fetch_data (e\<lparr>clock := c\<rparr>) sid s l (w\<lparr>ticks := n\<rparr>)) = Inr rr' \<and>
                    response_datetime (metadata rr') = response_datetime (metadata rr))"
proof -
  let ?prepped = "\<lparr>p_method = ''GET'', p_url = Endpoint_URL e @ ''/'' @ sid, p_body = None,
        p_params = [],
        p_headers = session_headers (case s of None \<Rightarrow> build_session e None | Some x \<Rightarrow> x)\<rparr>"
  from assms(1) have "(req, v) = (?prepped, False)"
    unfolding fetch_data_sent by simp
  with assms(2) have t: "transport e ?prepped False = Inr resp"
    by simp
  have h: "session_headers (case s of None \<Rightarrow> build_session (e\<lparr>clock := c\<rparr>) None | Some x \<Rightarrow> x) =
           session_headers (case s of None \<Rightarrow> build_session e None | Some x \<Rightarrow> x)" for c
    by (simp add: build_session_def split: option.splits)
  have t': "transport (e\<lparr>clock := c\<rparr>)
     \<lparr>p_method = ''GET'', p_url = Endpoint_URL (e\<lparr>clock := c\<rparr>) @ ''/'' @ sid, p_body = None,
        p_params = [],
        p_headers = session_headers
          (case s of None \<Rightarrow> build_session (e\<lparr>clock := c\<rparr>) None | Some x \<Rightarrow> x)\<rparr> False = Inr resp" for c
    using t by (simp add: h)
  show ?thesis
    using assms(3) strftime_layout [OF assms(4)]
    by (simp add: fetch_data_answered [OF t] fetch_data_answered [OF t'])
qed

theorem fetch_data_timestamp_witness:
  \<open>r_text update_response \<noteq> ''[{"m":"sr"}]'' \<and>
   calendar_time (localtime (env_with (replying update_response)) (r_cookies_now update_response)) \<and>
   clock (env_with (replying update_response)) (ticks world0) = 1600000003 \<and>
   (\<exists>rr. fst (fetch_data (env_with (replying update_response)) ''sid'' None None world0) = Inr rr \<and>
         response_datetime (metadata rr) = ''2020-09-13 12:26:40'' \<and>
         spec_datetime_layout (response_datetime (metadata rr)))\<close>
proof -
  have a: \<open>r_text update_response \<noteq> ''[{"m":"sr"}]''\<close>
    by (simp add: update_response_def reply_def)
  have n: "localtime (env_with (replying update_response)) (r_cookies_now update_response) =
           gmtime 1600000000"
    by (simp add: env_with_def update_response_def reply_def)
  have b: "calendar_time (localtime (env_with (replying update_response)) (r_cookies_now update_response))"
    unfolding n by (rule calendar_time_example)
  have c: "clock (env_with (replying update_response)) (ticks world0) = 1600000003"
    by (simp add: env_with_def world0_def)
  from fetch_data_timestamp [OF fetch_data_sent transport_replying a b, of "''sid''" None None world0]
  obtain rr where
    rr: "fst (fetch_data (env_with (replying update_response)) ''sid'' None None world0) = Inr rr"
        "response_datetime (metadata rr) =
           strftime ''%Y-%m-%d %H:%M:%S''
             (localtime (env_with (replying update_response)) (r_cookies_now update_response))"
        "spec_datetime_layout (response_datetime (metadata rr))"
    by (elim exE conjE)
  from rr(2) have d: "response_datetime (metadata rr) = ''2020-09-13 12:26:40''"
    unfolding n strftime_example .
  from rr(1) d rr(3)
  have "\<exists>rr. fst (fetch_data (env_with (replying update_response)) ''sid'' None None world0) = Inr rr \<and>
         response_datetime (metadata rr) = ''2020-09-13 12:26:40'' \<and>
         spec_datetime_layout (response_datetime (metadata rr))"
    by (intro exI conjI)
  with a b c show ?thesis
    by (intro conjI)
qed

subsection \<open>Session acquisition\<close>

text \<open>
  C6. For every acquisition whose response parses as a key/value structure: if the
  structure has the key \<^verbatim>\<open>sessionId\<close>, \<^verbatim>\<open>get_session_id\<close> returns exactly the value
  stored under it (\<^verbatim>\<open>X\<close> for the response \<^verbatim>\<open>{"sessionId": "X"}\<close>); if the key is
  absent it returns \<^verbatim>\<open>None\<close>, which differs from the \<^verbatim>\<open>False\<close> it returns when the
  transport fails.
\<close>

theorem get_session_id_key:
  assumes "sent (snd (get_session_id e tok s l w)) = sent w @ [(req, v)]"
    and "transport e req v = Inr resp"
    and "r_json resp = Inr (PyDict d)"
  shows "(\<forall>x. map_of d ''sessionId'' = Some x \<longrightarrow> fst (get_session_id e tok s l w) = Inr x) \<and>
         (map_of d ''sessionId'' = None \<longrightarrow> fst (get_session_id e tok s l w) = Inr PyNone) \<and>
         (\<forall>e' req' v' ex.
            sent (snd (get_session_id e' tok s l w)) = sent w @ [(req', v')] \<and>
            transport e' req' v' = Inl ex \<longrightarrow>
              fst (get_session_id e' tok s l w) = Inr (PyBool False) \<and>
              fst (get_session_id e' tok s l w) \<noteq> Inr PyNone)"
proof (intro conjI allI impI)
  from assms(1) have "(req, v) =
     (\<lparr>p_method = ''POST'', p_url = Endpoint_URL e @ ''/request_session'',
        p_body = Some ''{\"referrer\":\"https://trader.degiro.nl\"}'',
        p_params = [(''version'', Endpoint_VERSION e), (''userToken'', PyInt tok)],
        p_headers = session_headers (case s of None \<Rightarrow> build_session e None | Some x \<Rightarrow> x)\<rparr>, False)"
    unfolding get_session_id_sent by simp
  with assms(2) have t: "transport e
     \<lparr>p_method = ''POST'', p_url = Endpoint_URL e @ ''/request_session'',
        p_body = Some ''{\"referrer\":\"https://trader.degiro.nl\"}'',
        p_params = [(''version'', Endpoint_VERSION e), (''userToken'', PyInt tok)],
        p_headers = session_headers (case s of None \<Rightarrow> build_session e None | Some x \<Rightarrow> x)\<rparr>
     False = Inr resp"
    by simp
  note r = get_session_id_dict [OF t assms(3)]
  show "fst (get_session_id e tok s l w) = Inr x" if "map_of d ''sessionId'' = Some x" for x
    using that by (simp add: r)
  show "fst (get_session_id e tok s l w) = Inr PyNone" if "map_of d ''sessionId'' = None"
    using that by (simp add: r)
next
  fix e' req' v' ex
  assume a: "sent (snd (get_session_id e' tok s l w)) = sent w @ [(req', v')] \<and>
             transport e' req' v' = Inl ex"
  then have "(req', v') =
     (\<lparr>p_method = ''POST'', p_url = Endpoint_URL e' @ ''/request_session'',
        p_body = Some ''{\"referrer\":\"https://trader.degiro.nl\"}'',
        p_params = [(''version'', Endpoint_VERSION e'), (''userToken'', PyInt tok)],
        p_headers = session_headers (case s of None \<Rightarrow> build_session e' None | Some x \<Rightarrow> x)\<rparr>, False)"
    unfolding get_session_id_sent by simp
  with a have t: "transport e'
     \<lparr>p_method = ''POST'', p_url = Endpoint_URL e' @ ''/request_session'',
        p_body = Some ''{\"referrer\":\"https://trader.degiro.nl\"}'',
        p_params = [(''version'', Endpoint_VERSION e'), (''userToken'', PyInt tok)],
        p_headers = session_headers (case s of None \<Rightarrow> build_session e' None | Some x \<Rightarrow> x)\<rparr>
     False = Inl ex"
    by simp
  from get_session_id_raised [OF t]
  show "fst (get_session_id e' tok s l w) = Inr (PyBool False)"
    and "fst (get_session_id e' tok s l w) \<noteq> Inr PyNone"
    by simp_all
qed

theorem get_session_id_key_witness:
  "r_json session_response = Inr (PyDict [(''sessionId'', PyStr ''X'')]) \<and>
   fst (get_session_id (env_with (replying session_response)) 42 None None world0) = Inr (PyStr ''X'') \<and>
   r_json empty_object_response = Inr (PyDict []) \<and>
   fst (get_session_id (env_with (replying empty_object_response)) 42 None None world0) = Inr PyNone \<and>
   fst (get_session_id (env_with refusing) 42 None None world0) = Inr (PyBool False)"
proof -
  have j1: "r_json session_response = Inr (PyDict [(''sessionId'', PyStr ''X'')])"
    by (simp add: session_response_def reply_def)
  have j2: "r_json empty_object_response = Inr (PyDict [])"
    by (simp add: empty_object_response_def reply_def)
  note t1 = get_session_id_key [OF get_session_id_sent transport_replying j1, of 42 None None world0]
  note t2 = get_session_id_key [OF get_session_id_sent transport_replying j2, of 42 None None world0]
  from t1 have c1:
    "fst (get_session_id (env_with (replying session_response)) 42 None None world0) = Inr (PyStr ''X'')"
    by simp
  from t2 have c2:
    "fst (get_session_id (env_with (replying empty_object_response)) 42 None None world0) = Inr PyNone"
    by simp
  from t2 have "sent (snd (get_session_id (env_with refusing) 42 None None world0)) =
                  sent world0 @ [(req', v')] \<and>
                transport (env_with refusing) req' v' = Inl ex \<longrightarrow>
                fst (get_session_id (env_with refusing) 42 None None world0) = Inr (PyBool False)"
    for req' v' ex
    by blast
  from this [THEN mp, OF conjI, OF get_session_id_sent transport_refusing]
  have c3: "fst (get_session_id (env_with refusing) 42 None None world0) = Inr (PyBool False)" .
  from j1 c1 j2 c2 c3 show ?thesis
    by (intro conjI)
qed

subsection \<open>Error handling\<close>

text \<open>
  C4, as the code has it. In session acquisition and in subscription control an
  exception raised by the transport during the send is caught where it is raised, logged
  at fatal severity and surfaced to the caller as the value \<^verbatim>\<open>False\<close>; it does not
  propagate. In data polling the send is not guarded: the exception propagates to the
  caller of \<^verbatim>\<open>fetch_data\<close> and nothing is logged.
\<close>

theorem transport_failure_handling:
  "(sent (snd (get_session_id e tok s l w)) = sent w @ [(req, v)] \<and> transport e req v = Inl ex \<longrightarrow>
      fst (get_session_id e tok s l w) = Inr (PyBool False) \<and>
      logs (snd (get_session_id e tok s l w)) = logs w @
        [\<lparr>lg_logger = (case l of None \<Rightarrow> build_logger | Some n \<Rightarrow> n), lg_level = FATAL,
          lg_msg = ArgExn ex, lg_args = []\<rparr>]) \<and>
   (sent (snd (subscribe e r sid s l w)) = sent w @ [(req', v')] \<and> transport e req' v' = Inl ex' \<longrightarrow>
      fst (subscribe e r sid s l w) = Inr False \<and>
      last (logs (snd (subscribe e r sid s l w))) =
        \<lparr>lg_logger = (case l of None \<Rightarrow> build_logger | Some n \<Rightarrow> n), lg_level = FATAL,
         lg_msg = ArgExn ex', lg_args = []\<rparr>) \<and>
   (sent (snd (fetch_data e sid s l w)) = sent w @ [(req'', v'')] \<and>
    transport e req'' v'' = Inl ex'' \<longrightarrow>
      fst (fetch_data e sid s l w) = Inl ex'' \<and>
      logs (snd (fetch_data e sid s l w)) = logs w)"
proof (intro conjI impI)
  assume a: "sent (snd (get_session_id e tok s l w)) = sent w @ [(req, v)] \<and>
             transport e req v = Inl ex"
  then have "(req, v) =
     (\<lparr>p_method = ''POST'', p_url = Endpoint_URL e @ ''/request_session'',
        p_body = Some ''{\"referrer\":\"https://trader.degiro.nl\"}'',
        p_params = [(''version'', Endpoint_VERSION e), (''userToken'', PyInt tok)],
        p_headers = session_headers (case s of None \<Rightarrow> build_session e None | Some x \<Rightarrow> x)\<rparr>, False)"
    unfolding get_session_id_sent by simp
  with a have t: "transport e
     \<lparr>p_method = ''POST'', p_url = Endpoint_URL e @ ''/request_session'',
        p_body = Some ''{\"referrer\":\"https://trader.degiro.nl\"}'',
        p_params = [(''version'', Endpoint_VERSION e), (''userToken'', PyInt tok)],
        p_headers = session_headers (case s of None \<Rightarrow> build_session e None | Some x \<Rightarrow> x)\<rparr>
     False = Inl ex"
    by simp
  from get_session_id_raised [OF t]
  show "fst (get_session_id e tok s l w) = Inr (PyBool False)"
    and "logs (snd (get_session_id e tok s l w)) = logs w @
        [\<lparr>lg_logger = (case l of None \<Rightarrow> build_logger | Some n \<Rightarrow> n), lg_level = FATAL,
          lg_msg = ArgExn ex, lg_args = []\<rparr>]"
    by simp_all
next
  assume a: "sent (snd (subscribe e r sid s l w)) = sent w @ [(req', v')] \<and>
             transport e req' v' = Inl ex'"
  then have b: "sent (snd (subscribe e r sid s l w)) = sent w @ [(req', v')]"
    and c: "transport e req' v' = Inl ex'"
    by simp_all
  from subscribe_raised [OF b c]
  show "fst (subscribe e r sid s l w) = Inr False"
    and "last (logs (snd (subscribe e r sid s l w))) =
        \<lparr>lg_logger = (case l of None \<Rightarrow> build_logger | Some n \<Rightarrow> n), lg_level = FATAL,
         lg_msg = ArgExn ex', lg_args = []\<rparr>"
    by simp_all
next
  assume a: "sent (snd (fetch_data e sid s l w)) = sent w @ [(req'', v'')] \<and>
             transport e req'' v'' = Inl ex''"
  then have "(req'', v'') =
     (\<lparr>p_method = ''GET'', p_url = Endpoint_URL e @ ''/'' @ sid, p_body = None, p_params = [],
        p_headers = session_headers (case s of None \<Rightarrow> build_session e None | Some x \<Rightarrow> x)\<rparr>, False)"
    unfolding fetch_data_sent by simp
  with a have t: "transport e
     \<lparr>p_method = ''GET'', p_url = Endpoint_URL e @ ''/'' @ sid, p_body = None, p_params = [],
        p_headers = session_headers (case s of None \<Rightarrow> build_session e None | Some x \<Rightarrow> x)\<rparr>
     False = Inl ex''"
    by simp
  show "fst (fetch_data e sid s l w) = Inl ex''"
    and "logs (snd (fetch_data e sid s l w)) = logs w"
    by (simp_all add: fetch_data_raised [OF t])
qed

theorem transport_failure_handling_witness:
  "fst (get_session_id (env_with refusing) 42 None None world0) = Inr (PyBool False) \<and>
   logs (snd (get_session_id (env_with refusing) 42 None None world0)) =
     [\<lparr>lg_logger = ''quotecast.utilities'', lg_level = FATAL,
       lg_msg = ArgExn (ConnectionError ''connection refused''), lg_args = []\<rparr>] \<and>
   fst (subscribe (env_with refusing) subscription_BA ''sid'' None None world0) = Inr False \<and>
   last (logs (snd (subscribe (env_with refusing) subscription_BA ''sid'' None None world0))) =
     \<lparr>lg_logger = ''quotecast.utilities'', lg_level = FATAL,
      lg_msg = ArgExn (ConnectionError ''connection refused''), lg_args = []\<rparr> \<and>
   fst (fetch_data (env_with refusing) ''sid'' None None world0) =
     Inl (ConnectionError ''connection refused'') \<and>
   logs (snd (fetch_data (env_with refusing) ''sid'' None None world0)) = []"
proof -
  note t = transport_failure_handling
    [of "env_with refusing" 42 None None world0 _ _ "ConnectionError ''connection refused''"
        subscription_BA "''sid''" _ _ "ConnectionError ''connection refused''"
        _ _ "ConnectionError ''connection refused''"]
  note g = t [THEN conjunct1, THEN mp, OF conjI, OF get_session_id_sent transport_refusing]
  note s = t [THEN conjunct2, THEN conjunct1, THEN mp, OF conjI, OF sent_subscribe_BA transport_refusing]
  note f = t [THEN conjunct2, THEN conjunct2, THEN mp, OF conjI, OF fetch_data_sent transport_refusing]
  from g s f show ?thesis
    by (simp add: world0_def build_logger_def)
qed

text \<open>
  C4 as first stated ("for every operation ... never propagated") fails for data
  polling: with a transport that refuses the connection, \<^verbatim>\<open>fetch_data\<close> lets the
  exception through and logs nothing.
\<close>

theorem fetch_data_transport_error_propagates:
  "fst (fetch_data (env_with refusing) ''sid'' None None world0) =
     Inl (ConnectionError ''connection refused'') \<and>
   logs (snd (fetch_data (env_with refusing) ''sid'' None None world0)) = []"
  by (simp add: fetch_data_raised [OF transport_refusing] world0_def)

text \<open>
  C7, as the code has it. \<^verbatim>\<open>subscribe\<close> raises exactly when the action is neither
  SUBSCRIBE nor UNSUBSCRIBE. \<^verbatim>\<open>fetch_data\<close> raises exactly when the transport raises
  during the send (the exception propagates) or the body is the sentinel
  \<^verbatim>\<open>[{"m":"sr"}]\<close> (session expired). \<^verbatim>\<open>get_session_id\<close> returns, and does not raise,
  when the transport raises, when the body of the response fails to parse, and when
  the body parses to a key/value structure.
\<close>

theorem raising_conditions:
  assumes "sent (snd (fetch_data e sid s l w)) = sent w @ [(req, v)]"
    and "sent (snd (get_session_id e tok s l w)) = sent w @ [(req', v')]"
  shows \<open>(isl (fst (subscribe e r sid s l w)) \<longleftrightarrow>
            action r \<noteq> SUBSCRIBE \<and> action r \<noteq> UNSUBSCRIBE) \<and>
         (isl (fst (fetch_data e sid s l w)) \<longleftrightarrow>
            (case transport e req v of
               Inl ex \<Rightarrow> True
             | Inr resp \<Rightarrow> r_text resp = ''[{"m":"sr"}]'')) \<and>
         ((case transport e req' v' of
             Inl ex \<Rightarrow> True
           | Inr resp \<Rightarrow> (case r_json resp of
                           Inl ex \<Rightarrow> True
                         | Inr (PyDict d) \<Rightarrow> True
                         | Inr other \<Rightarrow> False)) \<longrightarrow>
          \<not> isl (fst (get_session_id e tok s l w)))\<close>
proof (intro conjI)
  show "isl (fst (subscribe e r sid s l w)) \<longleftrightarrow>
          action r \<noteq> SUBSCRIBE \<and> action r \<noteq> UNSUBSCRIBE"
  proof (cases "action r = SUBSCRIBE \<or> action r = UNSUBSCRIBE")
    case True
    then obtain verb where
      "action r = SUBSCRIBE \<and> verb = ''req'' \<or> action r = UNSUBSCRIBE \<and> verb = ''rel''"
      by auto
    from subscribe_valid [OF this, of e sid s l w] True show ?thesis
      by (auto simp add: Let_def split: sum.splits)
  next
    case False
    then show ?thesis
      by (simp add: subscribe_invalid)
  qed
next
  let ?prepped = "\<lparr>p_method = ''GET'', p_url = Endpoint_URL e @ ''/'' @ sid, p_body = None,
        p_params = [],
        p_headers = session_headers (case s of None \<Rightarrow> build_session e None | Some x \<Rightarrow> x)\<rparr>"
  from assms(1) have q: "req = ?prepped" "v = False"
    unfolding fetch_data_sent by simp_all
  show \<open>isl (fst (fetch_data e sid s l w)) \<longleftrightarrow>
          (case transport e req v of Inl ex \<Rightarrow> True | Inr resp \<Rightarrow> r_text resp = ''[{"m":"sr"}]'')\<close>
  proof (cases "transport e ?prepped False")
    case (Inl ex)
    then show ?thesis
      unfolding q by (simp add: fetch_data_raised [OF Inl])
  next
    case (Inr resp)
    then show ?thesis
      unfolding q by (simp add: fetch_data_answered [OF Inr])
  qed
next
  let ?prepped = "\<lparr>p_method = ''POST'', p_url = Endpoint_URL e @ ''/request_session'',
        p_body = Some ''{\"referrer\":\"https://trader.degiro.nl\"}'',
        p_params = [(''version'', Endpoint_VERSION e), (''userToken'', PyInt tok)],
        p_headers = session_headers (case s of None \<Rightarrow> build_session e None | Some x \<Rightarrow> x)\<rparr>"
  from assms(2) have q: "req' = ?prepped" "v' = False"
    unfolding get_session_id_sent by simp_all
  show "(case transport e req' v' of
             Inl ex \<Rightarrow> True
           | Inr resp \<Rightarrow> (case r_json resp of
                           Inl ex \<Rightarrow> True
                         | Inr (PyDict d) \<Rightarrow> True
                         | Inr other \<Rightarrow> False)) \<longrightarrow>
          \<not> isl (fst (get_session_id e tok s l w))"
  proof (cases "transport e ?prepped False")
    case (Inl ex)
    from get_session_id_raised [OF Inl] show ?thesis
      by simp
  next
    case (Inr resp)
    show ?thesis
    proof (cases "r_json resp")
      case (Inl ex)
      then show ?thesis
        by (simp add: get_session_id_answered [OF Inr])
    next
      case parsed: (Inr val)
      show ?thesis
      proof (cases val)
        case (PyDict d)
        with parsed have "r_json resp = Inr (PyDict d)" by simp
        from get_session_id_dict [OF Inr this] show ?thesis
          by (simp split: option.splits)
      qed (use Inr parsed in \<open>simp_all add: q\<close>)
    qed
  qed
qed

theorem raising_conditions_witness:
  "\<not> isl (fst (subscribe (env_with (replying garbage_response)) subscription_BA ''sid'' None None world0)) \<and>
   \<not> isl (fst (fetch_data (env_with (replying garbage_response)) ''sid'' None None world0)) \<and>
   \<not> isl (fst (get_session_id (env_with (replying garbage_response)) 42 None None world0)) \<and>
   isl (fst (subscribe (env_with (replying sr_response)) subscription_invalid ''sid'' None None world0)) \<and>
   isl (fst (fetch_data (env_with (replying sr_response)) ''sid'' None None world0))"
proof -
  note t1 = raising_conditions
    [where e = "env_with (replying garbage_response)" and sid = "''sid''" and s = None and l = None
       and w = world0 and tok = 42 and r = subscription_BA,
     OF fetch_data_sent get_session_id_sent]
  note t2 = raising_conditions
    [where e = "env_with (replying sr_response)" and sid = "''sid''" and s = None and l = None
       and w = world0 and tok = 42 and r = subscription_invalid,
     OF fetch_data_sent get_session_id_sent]
  have a: "action subscription_BA = SUBSCRIBE" "action subscription_invalid = UNRECOGNIZED 2"
    by (simp_all add: subscription_BA_def subscription_invalid_def)
  have b: \<open>r_text garbage_response = ''<html>''\<close> \<open>r_text sr_response = ''[{"m":"sr"}]''\<close>
    "r_json garbage_response = Inl (JSONDecodeError ''Expecting value'')"
    by (simp_all add: garbage_response_def sr_response_def reply_def)
  from t1 t2 show ?thesis
    by (simp add: transport_replying a b)
qed

text \<open>
  C7 as first stated fails both ways. Conditions other than the two it names make an
  operation raise: a poll that receives the sentinel body, and a poll whose transport
  raises. And one of the two it names does not raise: a response to the acquisition
  that fails to parse is caught, and \<^verbatim>\<open>get_session_id\<close> returns \<^verbatim>\<open>False\<close>.
\<close>

theorem raises_beyond_the_two_exceptions:
  \<open>fst (fetch_data (env_with (replying sr_response)) ''sid'' None None world0) =
     Inl (BrokenPipeError ''A new "session_id" is required.'') \<and>
   fst (fetch_data (env_with refusing) ''sid'' None None world0) =
     Inl (ConnectionError ''connection refused'') \<and>
   r_json garbage_response = Inl (JSONDecodeError ''Expecting value'') \<and>
   fst (get_session_id (env_with (replying garbage_response)) 42 None None world0) =
     Inr (PyBool False)\<close>
proof -
  have a: \<open>r_text sr_response = ''[{"m":"sr"}]''\<close>
    and b: "r_json garbage_response = Inl (JSONDecodeError ''Expecting value'')"
    by (simp_all add: sr_response_def garbage_response_def reply_def)
  have c: \<open>fst (fetch_data (env_with (replying sr_response)) ''sid'' None None world0) =
     Inl (BrokenPipeError ''A new "session_id" is required.'')\<close>
    by (simp add: fetch_data_answered [OF transport_replying] a)
  have d: "fst (fetch_data (env_with refusing) ''sid'' None None world0) =
     Inl (ConnectionError ''connection refused'')"
    by (simp add: fetch_data_raised [OF transport_refusing])
  have e: "fst (get_session_id (env_with (replying garbage_response)) 42 None None world0) =
     Inr (PyBool False)"
    by (simp add: get_session_id_answered [OF transport_replying] b)
  from c d b e show ?thesis
    by (intro conjI)
qed

end
